theory Spec2Isabelle
  imports Main
begin

section \<open>Data model\<close>

text \<open>
  The repository holds two versions of the module \<open>annotator.ui.main\<close>:
  \<open>src/src/ui/main.js\<close> (definitions prefixed \<open>mainjs_\<close>) and
  \<open>src/unnamed/part_000\<close> (definitions prefixed \<open>part0_\<close>).

  A selected range is an object of the range collaborator. The code calls two of
  its methods: \<open>r.text()\<close> and \<open>r.serialize(contextEl, ignoreSelector)\<close>.
  The type \<open>'e\<close> is the type of DOM elements, \<open>'s\<close> the type of serialized
  ranges.
\<close>

record ('e, 's) range =
  range_text :: string
  range_serialize :: "'e \<Rightarrow> string \<Rightarrow> 's"

text \<open>
  An annotation is the object \<open>{ranges: [...], permissions: {...}}\<close>. The
  \<open>permissions\<close> key is optional (\<open>None\<close> when the key is absent, undefined
  or null); when present it maps an action name to the list of authorized user
  identifiers (type \<open>'i\<close>). Keys that other modules add live in the extension
  slot of the record scheme; the plain record has no other key.
\<close>

record ('s, 'i) annotation =
  ranges :: "'s list"
  permissions :: "(string \<rightharpoonup> 'i list) option"

text \<open>What \<open>console.log(label, value)\<close> prints in \<open>src/src/ui/main.js\<close>.\<close>

datatype ('s, 'i) logged =
  LoggedRange 's
| LoggedAnnotation "('s, 'i) annotation"

type_synonym ('s, 'i) console_entry = "string \<times> ('s, 'i) logged"

section \<open>The annotation factory\<close>

text \<open>
  \<open>String.prototype.trim\<close> on strings of one-byte characters: the white space
  and line terminator characters below U+0080 are tab, line feed, vertical tab,
  form feed, carriage return and space.
\<close>

definition is_whitespace :: "char \<Rightarrow> bool" where
  "is_whitespace c \<longleftrightarrow>
     c = CHR 0x09 \<or> c = CHR 0x0A \<or> c = CHR 0x0B \<or> c = CHR 0x0C \<or> c = CHR 0x0D \<or> c = CHR 0x20"

definition trim :: "string \<Rightarrow> string" where
  "trim s = rev (dropWhile is_whitespace (rev (dropWhile is_whitespace s)))"

text \<open>
  The body of the \<open>for\<close> loop of \<open>annotationFactory\<close> in
  \<open>src/unnamed/part_000\<close>, lines 21 to 25: the loop walks the ranges in index
  order and pushes onto the two arrays \<open>text\<close> and \<open>serializedRanges\<close>.
\<close>

fun part0_annotationFactory_loop ::
  "'e \<Rightarrow> string \<Rightarrow> ('e, 's) range list \<Rightarrow> string list \<Rightarrow> 's list \<Rightarrow> string list \<times> 's list"
where
  "part0_annotationFactory_loop contextEl ignoreSelector [] text serializedRanges =
     (text, serializedRanges)"
| "part0_annotationFactory_loop contextEl ignoreSelector (r # rest) text serializedRanges =
     part0_annotationFactory_loop contextEl ignoreSelector rest
       (text @ [trim (range_text r)])
       (serializedRanges @ [range_serialize r contextEl ignoreSelector])"

definition part0_annotationFactory ::
  "'e \<Rightarrow> string \<Rightarrow> ('e, 's) range list \<Rightarrow> ('s, 'i) annotation"
where
  "part0_annotationFactory contextEl ignoreSelector rs =
     (case part0_annotationFactory_loop contextEl ignoreSelector rs [] [] of
        (text, serializedRanges) \<Rightarrow> \<lparr>ranges = serializedRanges, permissions = None\<rparr>)"

text \<open>
  The same loop in \<open>src/src/ui/main.js\<close>, lines 20 to 26. It also prints every
  serialized range to the console, so the model carries the console output.
\<close>

fun mainjs_annotationFactory_loop ::
  "'e \<Rightarrow> string \<Rightarrow> ('e, 's) range list \<Rightarrow> string list \<Rightarrow> 's list \<Rightarrow>
     ('s, 'i) console_entry list \<Rightarrow> string list \<times> 's list \<times> ('s, 'i) console_entry list"
where
  "mainjs_annotationFactory_loop contextEl ignoreSelector [] text serializedRanges console =
     (text, serializedRanges, console)"
| "mainjs_annotationFactory_loop contextEl ignoreSelector (r # rest) text serializedRanges console =
     (let serializedRange = range_serialize r contextEl ignoreSelector in
      mainjs_annotationFactory_loop contextEl ignoreSelector rest
        (text @ [trim (range_text r)])
        (serializedRanges @ [serializedRange])
        (console @ [(''serializedRange'', LoggedRange serializedRange)]))"

definition mainjs_annotationFactory ::
  "'e \<Rightarrow> string \<Rightarrow> ('e, 's) range list \<Rightarrow> ('s, 'i) annotation \<times> ('s, 'i) console_entry list"
where
  "mainjs_annotationFactory contextEl ignoreSelector rs =
     (case mainjs_annotationFactory_loop contextEl ignoreSelector rs [] [] [] of
        (text, serializedRanges, console) \<Rightarrow>
          (\<lparr>ranges = serializedRanges, permissions = None\<rparr>, console))"

section \<open>Collaborators and effects\<close>

text \<open>
  The utilities that \<open>app.registry.getUtility(name)\<close> returns are objects with
  methods. The identity policy is used through \<open>who()\<close> (the current user,
  \<open>None\<close> when it is undefined or null), the authorization policy through
  \<open>permits(action, annotation, user)\<close> and \<open>authorizedUserId(user)\<close>.
  The type \<open>'a\<close> is the type of annotations, \<open>'u\<close> of users.
\<close>

record ('a, 'u, 'i) utility =
  who :: "'u option"
  permits :: "string \<Rightarrow> 'a \<Rightarrow> 'u option \<Rightarrow> bool"
  authorizedUserId :: "'u \<Rightarrow> 'i"

record ('a, 'u, 'i) registry =
  getUtility :: "string \<Rightarrow> ('a, 'u, 'i) utility"

record ('a, 'u, 'i) app =
  registry :: "('a, 'u, 'i) registry"

text \<open>
  The configuration object of \<open>main\<close>. A key that is absent (or holds undefined
  or null) is \<open>None\<close>; a DOM element and an array are truthy.
\<close>

record ('e, 'x) options =
  element :: "'e option"
  editorExtensions :: "'x list option"
  viewerExtensions :: "'x list option"

text \<open>
  What the module reads from its surroundings: \<open>global.document.body\<close>,
  \<open>util.mousePosition(event)\<close>, \<open>util.gettext\<close>, and the position
  \<open>util.$(state.viewer.element).css(['top', 'left'])\<close> of the shown viewer.
\<close>

record ('e, 'ev, 'p) globals =
  document_body :: 'e
  mousePosition :: "'ev \<Rightarrow> 'p"
  gettext :: "string \<Rightarrow> string"
  viewer_css_top_left :: 'p

text \<open>
  The collaborator objects, each with the arguments its constructor receives;
  \<open>new\<close> is recorded by the state field that holds the object. The viewer
  keeps the two permission callbacks. The callbacks that change the module's
  state or call the application are functions of their own below, since they take
  the state they close over as an argument: \<open>onSelection\<close> given to the text
  selector, \<open>onEdit\<close> and \<open>onDelete\<close> given to the viewer, \<open>onCreate\<close> given
  to the adder.
\<close>

datatype adder = Adder

datatype 'x editor = Editor "'x list option"

datatype 'e highlighter = Highlighter "'e option"

datatype 'e textselector = TextSelector "'e option"

record ('e, 'x, 's, 'i) viewer =
  permitEdit :: "('s, 'i) annotation \<Rightarrow> bool"
  permitDelete :: "('s, 'i) annotation \<Rightarrow> bool"
  autoViewHighlights :: "'e option"
  extensions :: "'x list option"

text \<open>The object \<open>state\<close> of \<open>main\<close>; a field that was never set is \<open>None\<close>.\<close>

record ('e, 'x, 'p, 's, 'i) state =
  interactionPoint :: "'p option"
  adder :: "adder option"
  editor :: "'x editor option"
  highlighter :: "'e highlighter option"
  textselector :: "'e textselector option"
  viewer :: "('e, 'x, 's, 'i) viewer option"

text \<open>
  An editor field of type checkbox as the callbacks see it: whether it is shown
  and whether its input is checked.
\<close>

record field =
  visible :: bool
  checked :: bool

record 'a field_spec =
  ftype :: string
  label :: string
  load :: "field \<Rightarrow> 'a \<Rightarrow> field"
  submit :: "field \<Rightarrow> 'a \<Rightarrow> 'a"

text \<open>
  The calls the module makes on its collaborators, on \<open>app.annotations\<close>, on
  the console and on the dynamic style sheet, in the order they happen.
\<close>

datatype ('p, 's, 'i) call =
  Adder_attach
| Adder_load "('s, 'i) annotation" "'p option"
| Adder_hide
| Adder_destroy
| Editor_attach
| Editor_addField "('s, 'i) annotation field_spec"
| Editor_load "('s, 'i) annotation" "'p option"
| Editor_destroy
| Highlighter_drawAll "('s, 'i) annotation list"
| Highlighter_draw "('s, 'i) annotation"
| Highlighter_undraw "('s, 'i) annotation"
| Highlighter_redraw "('s, 'i) annotation"
| Highlighter_destroy
| TextSelector_destroy
| Viewer_attach
| Viewer_destroy
| Annotations_create "('s, 'i) annotation"
| Annotations_update "('s, 'i) annotation"
| Annotations_delete "('s, 'i) annotation"
| Console_log "('s, 'i) console_entry"
| RemoveDynamicStyle

text \<open>Calling a method on a state field that is undefined throws a TypeError.\<close>

datatype error = TypeError

text \<open>
  A method call \<open>receiver.method(...)\<close> is a pair of whether the receiver is
  defined and the call. A sequence of statements runs its calls in order and
  stops at the first undefined receiver, keeping the calls made before it.
\<close>

definition on :: "'h option \<Rightarrow> 'c \<Rightarrow> bool \<times> 'c" where
  "on receiver c = (receiver \<noteq> None, c)"

definition always :: "'c \<Rightarrow> bool \<times> 'c" where
  "always c = (True, c)"

fun run_calls :: "(bool \<times> 'c) list \<Rightarrow> 'c list \<times> error option" where
  "run_calls [] = ([], None)"
| "run_calls ((defined, c) # rest) =
     (if defined then (case run_calls rest of (cs, e) \<Rightarrow> (c # cs, e))
      else ([], Some TypeError))"

text \<open>The settled state of a promise, and what the user does in an open editor.\<close>

datatype promise = Resolved | Rejected

datatype editing = Completed | Cancelled

text \<open>
  Modelled from the spec: \<open>Editor#load\<close> of \<open>src/ui/editor.js\<close>, which is not
  among the sources. It returns a promise that is resolved if editing completes
  and rejected if editing is cancelled.
\<close>

definition editor_load_promise :: "editing \<Rightarrow> promise" where
  "editor_load_promise e = (case e of Completed \<Rightarrow> Resolved | Cancelled \<Rightarrow> Rejected)"

section \<open>The permissions checkboxes (\<open>src/unnamed/part_000\<close>)\<close>

definition part0_loadCallback ::
  "('a, 'u, 'i) utility \<Rightarrow> ('a, 'u, 'i) utility \<Rightarrow> string \<Rightarrow> field \<Rightarrow> 'a \<Rightarrow> field"
where
  "part0_loadCallback ident authz action fld annotation =
     (let fld = fld\<lparr>visible := True\<rparr>;
          u = who ident;
          fld = (if u = None then fld\<lparr>visible := False\<rparr> else fld);
          fld = (if \<not> permits authz ''admin'' annotation u then fld\<lparr>visible := False\<rparr> else fld)
      in if permits authz action annotation None
         then fld\<lparr>checked := True\<rparr>
         else fld\<lparr>checked := False\<rparr>)"

definition part0_submitCallback ::
  "('a, 'u, 'i) utility \<Rightarrow> ('b, 'u, 'i) utility \<Rightarrow> string \<Rightarrow> field \<Rightarrow>
     ('s, 'i, 'z) annotation_scheme \<Rightarrow> ('s, 'i, 'z) annotation_scheme"
where
  "part0_submitCallback ident authz action fld annotation =
     (case who ident of
        None \<Rightarrow> annotation
      | Some u \<Rightarrow>
          (let annotation =
                 (if permissions annotation = None
                  then annotation\<lparr>permissions := Some Map.empty\<rparr> else annotation)
           in if checked fld
              then annotation\<lparr>permissions :=
                     map_option (\<lambda>p. p(action := None)) (permissions annotation)\<rparr>
              else annotation\<lparr>permissions :=
                     map_option (\<lambda>p. p(action \<mapsto> [authorizedUserId authz u]))
                       (permissions annotation)\<rparr>))"

definition part0_addPermissionsCheckboxes ::
  "('e, 'ev, 'p) globals \<Rightarrow> (('s, 'i) annotation, 'u, 'i) utility \<Rightarrow>
     (('s, 'i) annotation, 'u, 'i) utility \<Rightarrow> ('s, 'i) annotation field_spec list"
where
  "part0_addPermissionsCheckboxes g ident authz =
     [\<lparr>ftype = ''checkbox'',
       label = gettext g ''Allow anyone to <strong>view</strong> this annotation'',
       load = part0_loadCallback ident authz ''read'',
       submit = part0_submitCallback ident authz ''read''\<rparr>,
      \<lparr>ftype = ''checkbox'',
       label = gettext g ''Allow anyone to <strong>edit</strong> this annotation'',
       load = part0_loadCallback ident authz ''update'',
       submit = part0_submitCallback ident authz ''update''\<rparr>]"

section \<open>The module object\<close>

text \<open>
  The object \<open>main\<close> returns. Its methods share the object \<open>state\<close>, which
  the model passes in and hands back. A method gives the calls it made and the
  error that stopped it, if any.
\<close>

record ('e, 'x, 'p, 's, 'i, 'u) module =
  start :: "(('s, 'i) annotation, 'u, 'i) app \<Rightarrow> ('e, 'x, 'p, 's, 'i) state \<Rightarrow>
    ('e, 'x, 'p, 's, 'i) state \<times> ('p, 's, 'i) call list \<times> error option"
  destroy :: "('e, 'x, 'p, 's, 'i) state \<Rightarrow> ('p, 's, 'i) call list \<times> error option"
  annotationsLoaded :: "('s, 'i) annotation list \<Rightarrow> ('e, 'x, 'p, 's, 'i) state \<Rightarrow>
    ('p, 's, 'i) call list \<times> error option"
  annotationCreated :: "('s, 'i) annotation \<Rightarrow> ('e, 'x, 'p, 's, 'i) state \<Rightarrow>
    ('p, 's, 'i) call list \<times> error option"
  annotationDeleted :: "('s, 'i) annotation \<Rightarrow> ('e, 'x, 'p, 's, 'i) state \<Rightarrow>
    ('p, 's, 'i) call list \<times> error option"
  annotationUpdated :: "('s, 'i) annotation \<Rightarrow> ('e, 'x, 'p, 's, 'i) state \<Rightarrow>
    ('p, 's, 'i) call list \<times> error option"
  beforeAnnotationCreated :: "('s, 'i) annotation \<Rightarrow> editing \<Rightarrow> ('e, 'x, 'p, 's, 'i) state \<Rightarrow>
    (('p, 's, 'i) call list \<times> error option) \<times> promise option"
  beforeAnnotationUpdated :: "('s, 'i) annotation \<Rightarrow> editing \<Rightarrow> ('e, 'x, 'p, 's, 'i) state \<Rightarrow>
    (('p, 's, 'i) call list \<times> error option) \<times> promise option"

text \<open>\<open>var state = {interactionPoint: null}\<close>: no collaborator is set yet.\<close>

definition initial_state :: "('e, 'x, 'p, 's, 'i) state" where
  "initial_state =
     \<lparr>interactionPoint = None, adder = None, editor = None, highlighter = None,
      textselector = None, viewer = None\<rparr>"

text \<open>
  The four callbacks that draw are the same in both files
  (\<open>src/src/ui/main.js\<close> lines 137 to 140, \<open>src/unnamed/part_000\<close> lines 222
  to 225).
\<close>

definition annotationsLoaded_impl ::
  "('s, 'i) annotation list \<Rightarrow> ('e, 'x, 'p, 's, 'i) state \<Rightarrow> ('p, 's, 'i) call list \<times> error option"
where
  "annotationsLoaded_impl anns st = run_calls [on (highlighter st) (Highlighter_drawAll anns)]"

definition annotationCreated_impl ::
  "('s, 'i) annotation \<Rightarrow> ('e, 'x, 'p, 's, 'i) state \<Rightarrow> ('p, 's, 'i) call list \<times> error option"
where
  "annotationCreated_impl ann st = run_calls [on (highlighter st) (Highlighter_draw ann)]"

definition annotationDeleted_impl ::
  "('s, 'i) annotation \<Rightarrow> ('e, 'x, 'p, 's, 'i) state \<Rightarrow> ('p, 's, 'i) call list \<times> error option"
where
  "annotationDeleted_impl ann st = run_calls [on (highlighter st) (Highlighter_undraw ann)]"

definition annotationUpdated_impl ::
  "('s, 'i) annotation \<Rightarrow> ('e, 'x, 'p, 's, 'i) state \<Rightarrow> ('p, 's, 'i) call list \<times> error option"
where
  "annotationUpdated_impl ann st = run_calls [on (highlighter st) (Highlighter_redraw ann)]"

text \<open>
  The callbacks given to the viewer, the same in both files: \<open>onEdit\<close> copies
  the interaction point from the shown viewer and asks the application to update,
  \<open>onDelete\<close> asks it to delete.
\<close>

definition onEdit ::
  "('e, 'ev, 'p) globals \<Rightarrow> ('s, 'i) annotation \<Rightarrow> ('e, 'x, 'p, 's, 'i) state \<Rightarrow>
     ('e, 'x, 'p, 's, 'i) state \<times> ('p, 's, 'i) call list \<times> error option"
where
  "onEdit g ann st =
     (case viewer st of
        None \<Rightarrow> (st, [], Some TypeError)
      | Some v \<Rightarrow>
          (st\<lparr>interactionPoint := Some (viewer_css_top_left g)\<rparr>,
           run_calls [always (Annotations_update ann)]))"

definition onDelete :: "('s, 'i) annotation \<Rightarrow> ('p, 's, 'i) call list \<times> error option" where
  "onDelete ann = run_calls [always (Annotations_delete ann)]"

definition new_Viewer ::
  "('e, 'x) options \<Rightarrow> (('s, 'i) annotation, 'u, 'i) utility \<Rightarrow>
     (('s, 'i) annotation, 'u, 'i) utility \<Rightarrow> ('e, 'x, 's, 'i) viewer"
where
  "new_Viewer opts ident authz =
     \<lparr>permitEdit = (\<lambda>ann. permits authz ''update'' ann (who ident)),
      permitDelete = (\<lambda>ann. permits authz ''delete'' ann (who ident)),
      autoViewHighlights = element opts,
      extensions = viewerExtensions opts\<rparr>"

section \<open>\<open>main\<close> of \<open>src/src/ui/main.js\<close>\<close>

text \<open>Lines 71 to 76: the defaults of the configuration object.\<close>

definition mainjs_options ::
  "('e, 'ev, 'p) globals \<Rightarrow> ('e, 'x) options option \<Rightarrow> ('e, 'x) options"
where
  "mainjs_options g options =
     (let opts = (case options of
                    None \<Rightarrow> \<lparr>element = None, editorExtensions = None, viewerExtensions = None\<rparr>
                  | Some given \<Rightarrow> given);
          opts = opts\<lparr>element :=
                   (case element opts of Some el \<Rightarrow> Some el | None \<Rightarrow> Some (document_body g))\<rparr>;
          opts = opts\<lparr>viewerExtensions :=
                   (case viewerExtensions opts of Some xs \<Rightarrow> Some xs | None \<Rightarrow> Some [])\<rparr>
      in opts)"

definition mainjs_makeAnnotation ::
  "('e, 'x) options \<Rightarrow> ('e option, 's) range list \<Rightarrow>
     ('s, 'i) annotation \<times> ('s, 'i) console_entry list"
where
  "mainjs_makeAnnotation opts = mainjs_annotationFactory (element opts) ''.annotator-hl''"

text \<open>Lines 93 to 100: the \<open>onSelection\<close> callback given to the text selector.\<close>

definition mainjs_onSelection ::
  "('e, 'ev, 'p) globals \<Rightarrow> ('e, 'x) options \<Rightarrow> ('e option, 's) range list \<Rightarrow> 'ev \<Rightarrow>
     ('e, 'x, 'p, 's, 'i) state \<Rightarrow>
     ('e, 'x, 'p, 's, 'i) state \<times> ('p, 's, 'i) call list \<times> error option"
where
  "mainjs_onSelection g opts rs event st =
     (if length rs > 0 then
        (case mainjs_makeAnnotation opts rs of
           (annotation, console) \<Rightarrow>
             (st\<lparr>interactionPoint := Some (mousePosition g event)\<rparr>,
              run_calls
                (map (\<lambda>entry. always (Console_log entry)) console @
                 [always (Console_log (''new annotation!'', LoggedAnnotation annotation)),
                  always (Annotations_create annotation)])))
      else (st, [], None))"

text \<open>Lines 86 to 124: \<open>start\<close> sets the highlighter, the text selector and the viewer.\<close>

definition mainjs_start ::
  "('e, 'ev, 'p) globals \<Rightarrow> ('e, 'x) options \<Rightarrow> (('s, 'i) annotation, 'u, 'i) app \<Rightarrow>
     ('e, 'x, 'p, 's, 'i) state \<Rightarrow>
     ('e, 'x, 'p, 's, 'i) state \<times> ('p, 's, 'i) call list \<times> error option"
where
  "mainjs_start g opts app st =
     (let ident = getUtility (registry app) ''identityPolicy'';
          authz = getUtility (registry app) ''authorizationPolicy'';
          st = st\<lparr>highlighter := Some (Highlighter (element opts))\<rparr>;
          st = st\<lparr>textselector := Some (TextSelector (element opts))\<rparr>;
          st = st\<lparr>viewer := Some (new_Viewer opts ident authz)\<rparr>
      in (st, run_calls [on (viewer st) Viewer_attach]))"

text \<open>Lines 129 to 135.\<close>

definition mainjs_destroy ::
  "('e, 'x, 'p, 's, 'i) state \<Rightarrow> ('p, 's, 'i) call list \<times> error option"
where
  "mainjs_destroy st =
     run_calls
       [on (editor st) Editor_destroy,
        on (highlighter st) Highlighter_destroy,
        on (textselector st) TextSelector_destroy,
        on (viewer st) Viewer_destroy,
        always RemoveDynamicStyle]"

text \<open>Lines 142 to 154: both callbacks return \<open>Promise.resolve()\<close>.\<close>

definition mainjs_beforeAnnotationCreated ::
  "('s, 'i) annotation \<Rightarrow> editing \<Rightarrow> ('e, 'x, 'p, 's, 'i) state \<Rightarrow>
     (('p, 's, 'i) call list \<times> error option) \<times> promise option"
where
  "mainjs_beforeAnnotationCreated annotation user st = (([], None), Some Resolved)"

definition mainjs_beforeAnnotationUpdated ::
  "('s, 'i) annotation \<Rightarrow> editing \<Rightarrow> ('e, 'x, 'p, 's, 'i) state \<Rightarrow>
     (('p, 's, 'i) call list \<times> error option) \<times> promise option"
where
  "mainjs_beforeAnnotationUpdated annotation user st = (([], None), Some Resolved)"

definition mainjs_main ::
  "('e, 'ev, 'p) globals \<Rightarrow> ('e, 'x) options option \<Rightarrow>
     ('e, 'x) options \<times> ('e, 'x, 'p, 's, 'i) state \<times> ('e, 'x, 'p, 's, 'i, 'u) module"
where
  "mainjs_main g options =
     (let opts = mainjs_options g options
      in (opts, initial_state,
          \<lparr>start = mainjs_start g opts,
           destroy = mainjs_destroy,
           annotationsLoaded = annotationsLoaded_impl,
           annotationCreated = annotationCreated_impl,
           annotationDeleted = annotationDeleted_impl,
           annotationUpdated = annotationUpdated_impl,
           beforeAnnotationCreated = mainjs_beforeAnnotationCreated,
           beforeAnnotationUpdated = mainjs_beforeAnnotationUpdated\<rparr>))"

section \<open>\<open>main\<close> of \<open>src/unnamed/part_000\<close>\<close>

text \<open>Lines 139 to 145: the defaults of the configuration object.\<close>

definition part0_options ::
  "('e, 'ev, 'p) globals \<Rightarrow> ('e, 'x) options option \<Rightarrow> ('e, 'x) options"
where
  "part0_options g options =
     (let opts = (case options of
                    None \<Rightarrow> \<lparr>element = None, editorExtensions = None, viewerExtensions = None\<rparr>
                  | Some given \<Rightarrow> given);
          opts = opts\<lparr>element :=
                   (case element opts of Some el \<Rightarrow> Some el | None \<Rightarrow> Some (document_body g))\<rparr>;
          opts = opts\<lparr>editorExtensions :=
                   (case editorExtensions opts of Some xs \<Rightarrow> Some xs | None \<Rightarrow> Some [])\<rparr>;
          opts = opts\<lparr>viewerExtensions :=
                   (case viewerExtensions opts of Some xs \<Rightarrow> Some xs | None \<Rightarrow> Some [])\<rparr>
      in opts)"

definition part0_makeAnnotation ::
  "('e, 'x) options \<Rightarrow> ('e option, 's) range list \<Rightarrow> ('s, 'i) annotation"
where
  "part0_makeAnnotation opts = part0_annotationFactory (element opts) ''.annotator-hl''"

text \<open>Lines 160 to 162: the \<open>onCreate\<close> callback given to the adder.\<close>

definition part0_onCreate :: "('s, 'i) annotation \<Rightarrow> ('p, 's, 'i) call list \<times> error option" where
  "part0_onCreate ann = run_calls [always (Annotations_create ann)]"

text \<open>Lines 176 to 184: the \<open>onSelection\<close> callback given to the text selector.\<close>

definition part0_onSelection ::
  "('e, 'ev, 'p) globals \<Rightarrow> ('e, 'x) options \<Rightarrow> ('e option, 's) range list \<Rightarrow> 'ev \<Rightarrow>
     ('e, 'x, 'p, 's, 'i) state \<Rightarrow>
     ('e, 'x, 'p, 's, 'i) state \<times> ('p, 's, 'i) call list \<times> error option"
where
  "part0_onSelection g opts rs event st =
     (if length rs > 0 then
        (let annotation = part0_makeAnnotation opts rs;
             st = st\<lparr>interactionPoint := Some (mousePosition g event)\<rparr>
         in (st, run_calls [on (adder st) (Adder_load annotation (interactionPoint st))]))
      else (st, run_calls [on (adder st) Adder_hide]))"

text \<open>
  Lines 155 to 208: \<open>start\<close> sets the adder, the editor (with the two
  permissions checkboxes), the highlighter, the text selector and the viewer.
  Every method call follows the assignment of its receiver, and no field is
  assigned twice, so the calls are listed against the final state.
\<close>

definition part0_start ::
  "('e, 'ev, 'p) globals \<Rightarrow> ('e, 'x) options \<Rightarrow> (('s, 'i) annotation, 'u, 'i) app \<Rightarrow>
     ('e, 'x, 'p, 's, 'i) state \<Rightarrow>
     ('e, 'x, 'p, 's, 'i) state \<times> ('p, 's, 'i) call list \<times> error option"
where
  "part0_start g opts app st =
     (let ident = getUtility (registry app) ''identityPolicy'';
          authz = getUtility (registry app) ''authorizationPolicy'';
          st = st\<lparr>adder := Some Adder\<rparr>;
          st = st\<lparr>editor := Some (Editor (editorExtensions opts))\<rparr>;
          st = st\<lparr>highlighter := Some (Highlighter (element opts))\<rparr>;
          st = st\<lparr>textselector := Some (TextSelector (element opts))\<rparr>;
          st = st\<lparr>viewer := Some (new_Viewer opts ident authz)\<rparr>
      in (st,
          run_calls
            ([on (adder st) Adder_attach, on (editor st) Editor_attach] @
             map (\<lambda>spec. on (editor st) (Editor_addField spec))
               (part0_addPermissionsCheckboxes g ident authz) @
             [on (viewer st) Viewer_attach])))"

text \<open>Lines 213 to 220.\<close>

definition part0_destroy ::
  "('e, 'x, 'p, 's, 'i) state \<Rightarrow> ('p, 's, 'i) call list \<times> error option"
where
  "part0_destroy st =
     run_calls
       [on (adder st) Adder_destroy,
        on (editor st) Editor_destroy,
        on (highlighter st) Highlighter_destroy,
        on (textselector st) TextSelector_destroy,
        on (viewer st) Viewer_destroy,
        always RemoveDynamicStyle]"

text \<open>
  Lines 227 to 237: both callbacks return the promise of
  \<open>state.editor.load(annotation, state.interactionPoint)\<close>.
\<close>

definition part0_beforeAnnotationCreated ::
  "('s, 'i) annotation \<Rightarrow> editing \<Rightarrow> ('e, 'x, 'p, 's, 'i) state \<Rightarrow>
     (('p, 's, 'i) call list \<times> error option) \<times> promise option"
where
  "part0_beforeAnnotationCreated annotation user st =
     (case editor st of
        None \<Rightarrow> (([], Some TypeError), None)
      | Some ed \<Rightarrow>
          (([Editor_load annotation (interactionPoint st)], None),
           Some (editor_load_promise user)))"

definition part0_beforeAnnotationUpdated ::
  "('s, 'i) annotation \<Rightarrow> editing \<Rightarrow> ('e, 'x, 'p, 's, 'i) state \<Rightarrow>
     (('p, 's, 'i) call list \<times> error option) \<times> promise option"
where
  "part0_beforeAnnotationUpdated annotation user st =
     (case editor st of
        None \<Rightarrow> (([], Some TypeError), None)
      | Some ed \<Rightarrow>
          (([Editor_load annotation (interactionPoint st)], None),
           Some (editor_load_promise user)))"

definition part0_main ::
  "('e, 'ev, 'p) globals \<Rightarrow> ('e, 'x) options option \<Rightarrow>
     ('e, 'x) options \<times> ('e, 'x, 'p, 's, 'i) state \<times> ('e, 'x, 'p, 's, 'i, 'u) module"
where
  "part0_main g options =
     (let opts = part0_options g options
      in (opts, initial_state,
          \<lparr>start = part0_start g opts,
           destroy = part0_destroy,
           annotationsLoaded = annotationsLoaded_impl,
           annotationCreated = annotationCreated_impl,
           annotationDeleted = annotationDeleted_impl,
           annotationUpdated = annotationUpdated_impl,
           beforeAnnotationCreated = part0_beforeAnnotationCreated,
           beforeAnnotationUpdated = part0_beforeAnnotationUpdated\<rparr>))"

section \<open>Concrete inputs\<close>

text \<open>
  Small inputs on which the definitions are evaluated: elements, extensions,
  users and user identifiers are numbers, serialized ranges are strings, points
  and events are pairs of coordinates.
\<close>

definition ex_globals :: "(nat, nat \<times> nat, nat \<times> nat) globals" where
  "ex_globals =
     \<lparr>document_body = 0, mousePosition = (\<lambda>ev. ev), gettext = (\<lambda>msg. msg),
      viewer_css_top_left = (10, 20)\<rparr>"

definition ex_range_a :: "(nat option, string) range" where
  "ex_range_a = \<lparr>range_text = ''  first '', range_serialize = (\<lambda>el sel. ''range-a'')\<rparr>"

definition ex_range_b :: "(nat option, string) range" where
  "ex_range_b = \<lparr>range_text = ''second'', range_serialize = (\<lambda>el sel. ''range-b'')\<rparr>"

definition ex_annotation :: "(string, nat) annotation" where
  "ex_annotation =
     \<lparr>ranges = [''range-a''], permissions = Some [''read'' \<mapsto> [1], ''update'' \<mapsto> [2]]\<rparr>"

definition ex_ident :: "((string, nat) annotation, nat, nat) utility" where
  "ex_ident = \<lparr>who = Some 7, permits = (\<lambda>action ann user. False), authorizedUserId = (\<lambda>u. u)\<rparr>"

definition ex_anonymous :: "((string, nat) annotation, nat, nat) utility" where
  "ex_anonymous = \<lparr>who = None, permits = (\<lambda>action ann user. False), authorizedUserId = (\<lambda>u. u)\<rparr>"

definition ex_authz :: "((string, nat) annotation, nat, nat) utility" where
  "ex_authz =
     \<lparr>who = None, permits = (\<lambda>action ann user. user = Some 7),
      authorizedUserId = (\<lambda>u. u + 100)\<rparr>"

definition ex_app :: "((string, nat) annotation, nat, nat) app" where
  "ex_app =
     \<lparr>registry = \<lparr>getUtility =
        (\<lambda>name. if name = ''identityPolicy'' then ex_ident else ex_authz)\<rparr>\<rparr>"

definition ex_mainjs_module :: "(nat, nat, nat \<times> nat, string, nat, nat) module" where
  "ex_mainjs_module = snd (snd (mainjs_main ex_globals None))"

definition ex_part0_module :: "(nat, nat, nat \<times> nat, string, nat, nat) module" where
  "ex_part0_module = snd (snd (part0_main ex_globals None))"

definition ex_part0_started :: "(nat, nat, nat \<times> nat, string, nat) state" where
  "ex_part0_started = fst (start ex_part0_module ex_app initial_state)"

definition ex_mainjs_started :: "(nat, nat, nat \<times> nat, string, nat) state" where
  "ex_mainjs_started = fst (start ex_mainjs_module ex_app initial_state)"

section \<open>Properties of the annotation factory\<close>

lemma trim_example: "trim ''  first '' = ''first''"
  by (simp add: trim_def is_whitespace_def)

lemma part0_annotationFactory_loop_eq:
  "part0_annotationFactory_loop c sel rs ts srs =
     (ts @ map (\<lambda>r. trim (range_text r)) rs, srs @ map (\<lambda>r. range_serialize r c sel) rs)"
  by (induction rs arbitrary: ts srs) simp_all

lemma mainjs_annotationFactory_loop_eq:
  "mainjs_annotationFactory_loop c sel rs ts srs console =
     (ts @ map (\<lambda>r. trim (range_text r)) rs,
      srs @ map (\<lambda>r. range_serialize r c sel) rs,
      console @ map (\<lambda>r. (''serializedRange'', LoggedRange (range_serialize r c sel))) rs)"
  by (induction rs arbitrary: ts srs console) (simp_all add: Let_def)

lemma part0_annotationFactory_eq:
  "part0_annotationFactory c sel rs =
     \<lparr>ranges = map (\<lambda>r. range_serialize r c sel) rs, permissions = None\<rparr>"
  by (simp add: part0_annotationFactory_def part0_annotationFactory_loop_eq)

lemma mainjs_annotationFactory_eq:
  "mainjs_annotationFactory c sel rs =
     (\<lparr>ranges = map (\<lambda>r. range_serialize r c sel) rs, permissions = None\<rparr>,
      map (\<lambda>r. (''serializedRange'', LoggedRange (range_serialize r c sel))) rs)"
  by (simp add: mainjs_annotationFactory_def mainjs_annotationFactory_loop_eq)

section \<open>Helper lemmas on the module\<close>

lemma run_calls_always_append:
  "run_calls (map (\<lambda>x. (True, f x)) xs @ rest) =
     (map f xs @ fst (run_calls rest), snd (run_calls rest))"
  by (induction xs) (simp_all split: prod.splits)

lemma mainjs_onSelection_nonempty:
  "rs \<noteq> [] \<Longrightarrow>
   mainjs_onSelection g opts rs ev st =
     (st\<lparr>interactionPoint := Some (mousePosition g ev)\<rparr>,
      map Console_log (snd (mainjs_makeAnnotation opts rs)) @
      [Console_log (''new annotation!'', LoggedAnnotation (fst (mainjs_makeAnnotation opts rs))),
       Annotations_create (fst (mainjs_makeAnnotation opts rs))],
      None)"
  by (simp add: mainjs_onSelection_def run_calls_always_append always_def split: prod.splits)

lemma part0_onSelection_nonempty:
  "rs \<noteq> [] \<Longrightarrow> adder st \<noteq> None \<Longrightarrow>
   part0_onSelection g opts rs ev st =
     (st\<lparr>interactionPoint := Some (mousePosition g ev)\<rparr>,
      [Adder_load (part0_makeAnnotation opts rs) (Some (mousePosition g ev))],
      None)"
  by (simp add: part0_onSelection_def Let_def on_def)

lemma mainjs_makeAnnotation_length:
  "length (ranges (fst (mainjs_makeAnnotation opts rs))) = length rs"
  by (simp add: mainjs_makeAnnotation_def mainjs_annotationFactory_eq)

lemma part0_makeAnnotation_length:
  "length (ranges (part0_makeAnnotation opts rs)) = length rs"
  by (simp add: part0_makeAnnotation_def part0_annotationFactory_eq)

lemma mainjs_start_fields:
  "fst (mainjs_start g opts app st) =
     st\<lparr>highlighter := Some (Highlighter (element opts)),
        textselector := Some (TextSelector (element opts)),
        viewer := Some (new_Viewer opts (getUtility (registry app) ''identityPolicy'')
                          (getUtility (registry app) ''authorizationPolicy''))\<rparr>"
  by (simp add: mainjs_start_def Let_def)

lemma part0_start_fields:
  "fst (part0_start g opts app st) =
     st\<lparr>adder := Some Adder,
        editor := Some (Editor (editorExtensions opts)),
        highlighter := Some (Highlighter (element opts)),
        textselector := Some (TextSelector (element opts)),
        viewer := Some (new_Viewer opts (getUtility (registry app) ''identityPolicy'')
                          (getUtility (registry app) ''authorizationPolicy''))\<rparr>"
  by (simp add: part0_start_def Let_def)

lemma mainjs_start_calls:
  "snd (mainjs_start g opts app st) = ([Viewer_attach], None)"
  by (simp add: mainjs_start_def Let_def on_def)

lemma part0_start_calls:
  "snd (part0_start g opts app st) =
     ([Adder_attach, Editor_attach] @
      map Editor_addField
        (part0_addPermissionsCheckboxes g (getUtility (registry app) ''identityPolicy'')
           (getUtility (registry app) ''authorizationPolicy'')) @
      [Viewer_attach], None)"
  by (simp add: part0_start_def Let_def on_def part0_addPermissionsCheckboxes_def)

lemma part0_options_defaults:
  "part0_options g options =
     \<lparr>element =
        Some (case Option.bind options element of Some el \<Rightarrow> el | None \<Rightarrow> document_body g),
      editorExtensions =
        Some (case Option.bind options editorExtensions of Some xs \<Rightarrow> xs | None \<Rightarrow> []),
      viewerExtensions =
        Some (case Option.bind options viewerExtensions of Some xs \<Rightarrow> xs | None \<Rightarrow> [])\<rparr>"
  by (cases options) (auto simp add: part0_options_def Let_def split: option.splits)

lemma mainjs_options_defaults:
  "mainjs_options g options =
     \<lparr>element =
        Some (case Option.bind options element of Some el \<Rightarrow> el | None \<Rightarrow> document_body g),
      editorExtensions = Option.bind options editorExtensions,
      viewerExtensions =
        Some (case Option.bind options viewerExtensions of Some xs \<Rightarrow> xs | None \<Rightarrow> [])\<rparr>"
  by (cases options) (auto simp add: mainjs_options_def Let_def split: option.splits)

text \<open>
  In \<open>src/unnamed/part_000\<close> the five collaborators that \<open>destroy\<close> reads are
  all set by \<open>start\<close>, so \<open>destroy\<close> runs to its end.
\<close>

lemma part0_destroy_after_start:
  "(case part0_main g options of
      (opts, state0, m) \<Rightarrow> destroy m (fst (start m app state0))) =
     ([Adder_destroy, Editor_destroy, Highlighter_destroy, TextSelector_destroy,
       Viewer_destroy, RemoveDynamicStyle], None)"
  by (simp add: part0_main_def Let_def part0_start_fields part0_destroy_def on_def always_def)

text \<open>
  In \<open>src/unnamed/part_000\<close> the two hooks return the editor's promise: with an
  editor that rejects on cancellation, the hooks reject when editing is cancelled
  and resolve when it completes.
\<close>

lemma part0_before_hooks_follow_editor:
  "editor st \<noteq> None \<Longrightarrow>
   (case part0_main g options of
      (opts, state0, m) \<Rightarrow>
        (beforeAnnotationCreated m ann user st, beforeAnnotationUpdated m ann user st)) =
     ((([Editor_load ann (interactionPoint st)], None), Some (editor_load_promise user)),
      (([Editor_load ann (interactionPoint st)], None), Some (editor_load_promise user)))"
  by (auto simp add: part0_main_def Let_def part0_beforeAnnotationCreated_def
      part0_beforeAnnotationUpdated_def)


section \<open>The claims\<close>

text \<open>
  Claim C10. The annotation factory of \<open>src/src/ui/main.js\<close> and the one of
  \<open>src/unnamed/part_000\<close> return the same annotation for every context
  element, ignore selector and list of ranges; the console output of the former
  is the second component of its result and does not change the annotation.
\<close>

theorem annotationFactory_versions_agree:
  "fst (mainjs_annotationFactory contextEl ignoreSelector rs) =
     part0_annotationFactory contextEl ignoreSelector rs"
  by (simp add: mainjs_annotationFactory_eq part0_annotationFactory_eq)

text \<open>
  Claim C5. In both files the annotation that the factory returns holds under
  \<open>ranges\<close> the serializations of the selected ranges against the context
  element, in selection order (the entry at index \<open>i\<close> is the serialization of
  the range at index \<open>i\<close>), and has no other key: \<open>permissions\<close> is absent and
  the record has no further field. The trimmed texts are not part of the result:
  replacing the text of every range leaves the annotation as it is. This holds for
  every list of ranges, the non-empty ones in particular.
\<close>

theorem annotationFactory_result:
  "(part0_annotationFactory contextEl ignoreSelector rs :: ('s, 'i) annotation) =
     \<lparr>ranges = map (\<lambda>r. range_serialize r contextEl ignoreSelector) rs, permissions = None\<rparr>
   \<and> fst (mainjs_annotationFactory contextEl ignoreSelector rs
          :: ('s, 'i) annotation \<times> ('s, 'i) console_entry list) =
     \<lparr>ranges = map (\<lambda>r. range_serialize r contextEl ignoreSelector) rs, permissions = None\<rparr>
   \<and> (\<forall>i < length rs.
         ranges (part0_annotationFactory contextEl ignoreSelector rs :: ('s, 'i) annotation) ! i =
           range_serialize (rs ! i) contextEl ignoreSelector
       \<and> ranges (fst (mainjs_annotationFactory contextEl ignoreSelector rs
            :: ('s, 'i) annotation \<times> ('s, 'i) console_entry list)) ! i =
           range_serialize (rs ! i) contextEl ignoreSelector)
   \<and> part0_annotationFactory contextEl ignoreSelector (map (\<lambda>r. r\<lparr>range_text := t r\<rparr>) rs) =
       (part0_annotationFactory contextEl ignoreSelector rs :: ('s, 'i) annotation)
   \<and> fst (mainjs_annotationFactory contextEl ignoreSelector (map (\<lambda>r. r\<lparr>range_text := t r\<rparr>) rs)) =
       fst (mainjs_annotationFactory contextEl ignoreSelector rs
         :: ('s, 'i) annotation \<times> ('s, 'i) console_entry list)"
  by (simp add: mainjs_annotationFactory_eq part0_annotationFactory_eq comp_def)

theorem annotationFactory_result_witness:
  "part0_annotationFactory (Some (0::nat)) ''.annotator-hl'' [ex_range_a, ex_range_b] =
     (\<lparr>ranges = [''range-a'', ''range-b''], permissions = None\<rparr> :: (string, nat) annotation)
   \<and> ranges (part0_annotationFactory (Some (0::nat)) ''.annotator-hl'' [ex_range_a, ex_range_b]
        :: (string, nat) annotation) ! 1 = ''range-b''
   \<and> ranges (fst (mainjs_annotationFactory (Some (0::nat)) ''.annotator-hl'' [ex_range_a, ex_range_b]
        :: (string, nat) annotation \<times> _)) ! 1 = ''range-b''"
  using annotationFactory_result [of "Some (0::nat)" "''.annotator-hl''" "[ex_range_a, ex_range_b]"
      "\<lambda>r. ''''", where ?'i = nat]
  by (simp add: ex_range_a_def ex_range_b_def)

text \<open>
  Claim C1. When a selection delivers a non-empty list of ranges, the
  \<open>onSelection\<close> handler builds one annotation with \<open>makeAnnotation\<close> and hands
  it on: in \<open>src/src/ui/main.js\<close> to \<open>app.annotations.create\<close> (after logging
  it), in \<open>src/unnamed/part_000\<close> to \<open>state.adder.load\<close> (the adder is set once
  \<open>start\<close> has run). In both files the \<open>ranges\<close> list of that annotation has
  exactly as many entries as the delivered list.
\<close>

theorem onSelection_builds_one_range_per_selection:
  assumes "rs \<noteq> []"
  shows "mainjs_onSelection g opts rs ev st =
           (st\<lparr>interactionPoint := Some (mousePosition g ev)\<rparr>,
            map Console_log (snd (mainjs_makeAnnotation opts rs)) @
            [Console_log (''new annotation!'', LoggedAnnotation (fst (mainjs_makeAnnotation opts rs))),
             Annotations_create (fst (mainjs_makeAnnotation opts rs))],
            None)
       \<and> length (ranges (fst (mainjs_makeAnnotation opts rs))) = length rs
       \<and> (adder st \<noteq> None \<longrightarrow>
            part0_onSelection g opts rs ev st =
              (st\<lparr>interactionPoint := Some (mousePosition g ev)\<rparr>,
               [Adder_load (part0_makeAnnotation opts rs) (Some (mousePosition g ev))],
               None))
       \<and> length (ranges (part0_makeAnnotation opts rs)) = length rs"
  using assms mainjs_onSelection_nonempty [of rs g opts ev st]
    part0_onSelection_nonempty [of rs st g opts ev]
    mainjs_makeAnnotation_length [of opts rs] part0_makeAnnotation_length [of opts rs]
  by blast

theorem onSelection_builds_one_range_per_selection_witness:
  "[ex_range_a, ex_range_b] \<noteq> []
   \<and> adder ex_part0_started \<noteq> None
   \<and> snd (mainjs_onSelection ex_globals (mainjs_options ex_globals None)
        [ex_range_a, ex_range_b] (3, 4) ex_mainjs_started) =
       ([Console_log (''serializedRange'', LoggedRange ''range-a''),
         Console_log (''serializedRange'', LoggedRange ''range-b''),
         Console_log (''new annotation!'',
           LoggedAnnotation \<lparr>ranges = [''range-a'', ''range-b''], permissions = None\<rparr>),
         Annotations_create \<lparr>ranges = [''range-a'', ''range-b''], permissions = None\<rparr>],
        None)
   \<and> snd (part0_onSelection ex_globals (part0_options ex_globals None)
        [ex_range_a, ex_range_b] (3, 4) ex_part0_started) =
       ([Adder_load \<lparr>ranges = [''range-a'', ''range-b''], permissions = None\<rparr> (Some (3, 4))],
        None)
   \<and> length (ranges (part0_makeAnnotation (part0_options ex_globals None)
        [ex_range_a, ex_range_b] :: (string, nat) annotation)) = 2"
proof -
  have nonempty: "[ex_range_a, ex_range_b] \<noteq> []"
    by simp
  have started: "adder ex_part0_started \<noteq> None"
    by (simp add: ex_part0_started_def ex_part0_module_def part0_main_def Let_def
        part0_start_fields)
  have mainjs_ann:
    "mainjs_makeAnnotation (mainjs_options ex_globals None) [ex_range_a, ex_range_b] =
       (\<lparr>ranges = [''range-a'', ''range-b''], permissions = None\<rparr>,
        [(''serializedRange'', LoggedRange ''range-a''),
         (''serializedRange'', LoggedRange ''range-b'')])"
    by (simp add: mainjs_makeAnnotation_def mainjs_annotationFactory_def Let_def
        ex_range_a_def ex_range_b_def)
  have part0_ann:
    "part0_makeAnnotation (part0_options ex_globals None) [ex_range_a, ex_range_b] =
       \<lparr>ranges = [''range-a'', ''range-b''], permissions = None\<rparr>"
    by (simp add: part0_makeAnnotation_def part0_annotationFactory_def
        ex_range_a_def ex_range_b_def)
  have position: "mousePosition ex_globals (3, 4) = (3, 4)"
    by (simp add: ex_globals_def)
  show ?thesis
    using onSelection_builds_one_range_per_selection [OF nonempty, of ex_globals
        "mainjs_options ex_globals None" "(3, 4)" ex_mainjs_started]
      onSelection_builds_one_range_per_selection [OF nonempty, of ex_globals
        "part0_options ex_globals None" "(3, 4)" ex_part0_started] started
    by (elim conjE) (simp add: mainjs_ann part0_ann position)
qed


text \<open>
  Claim C9. When a selection delivers an empty list of ranges, the
  \<open>onSelection\<close> handler builds no annotation and does not call
  \<open>app.annotations.create\<close>: in \<open>src/src/ui/main.js\<close> it makes no call at
  all and leaves the state as it is; in \<open>src/unnamed/part_000\<close> its only call
  is \<open>state.adder.hide()\<close> (which throws when no adder is set).
\<close>

theorem onSelection_empty_creates_nothing:
  "mainjs_onSelection g opts [] ev st = (st, [], None)
   \<and> part0_onSelection g opts [] ev st =
       (st, if adder st = None then ([], Some TypeError) else ([Adder_hide], None))"
  by (simp add: mainjs_onSelection_def part0_onSelection_def on_def)

text \<open>
  Claim C7. In both files \<open>start(app)\<close> looks the identity policy and the
  authorization policy up in the registry of \<open>app\<close>, under the names
  \<open>identityPolicy\<close> and \<open>authorizationPolicy\<close>, and the viewer it sets
  answers \<open>permitEdit(ann)\<close> with \<open>permits('update', ann, who())\<close> and
  \<open>permitDelete(ann)\<close> with \<open>permits('delete', ann, who())\<close>, where
  \<open>who()\<close> is the current user of that identity policy.
\<close>

theorem permission_queries_consult_policies:
  "map_option (\<lambda>v. (permitEdit v ann, permitDelete v ann))
     (viewer (fst (mainjs_start g opts app st))) =
   Some (permits (getUtility (registry app) ''authorizationPolicy'') ''update'' ann
           (who (getUtility (registry app) ''identityPolicy'')),
         permits (getUtility (registry app) ''authorizationPolicy'') ''delete'' ann
           (who (getUtility (registry app) ''identityPolicy'')))
   \<and> map_option (\<lambda>v. (permitEdit v ann, permitDelete v ann))
     (viewer (fst (part0_start g opts app st))) =
   Some (permits (getUtility (registry app) ''authorizationPolicy'') ''update'' ann
           (who (getUtility (registry app) ''identityPolicy'')),
         permits (getUtility (registry app) ''authorizationPolicy'') ''delete'' ann
           (who (getUtility (registry app) ''identityPolicy'')))"
  by (simp add: mainjs_start_def part0_start_def Let_def new_Viewer_def)

text \<open>
  Claim C8. The submit callback of a permissions checkbox in
  \<open>src/unnamed/part_000\<close>: when no user is set the annotation is returned
  unchanged; with a current user \<open>u\<close>, a checked box removes the key of the
  action from \<open>annotation.permissions\<close> and an unchecked box sets it to the
  one-element list holding \<open>authorizedUserId(u)\<close> (a missing \<open>permissions\<close>
  object is first created empty, all other keys are kept). The two checkboxes that
  \<open>addPermissionsCheckboxes\<close> adds carry this callback for the actions
  \<open>read\<close> and \<open>update\<close>, in this order.
\<close>

theorem submitCallback_sets_permissions:
  "(who ident = None \<longrightarrow> part0_submitCallback ident authz action fld ann = ann)
   \<and> (who ident = Some u \<and> checked fld \<longrightarrow>
        part0_submitCallback ident authz action fld ann =
          ann\<lparr>permissions :=
            Some ((case permissions ann of None \<Rightarrow> Map.empty | Some p \<Rightarrow> p)(action := None))\<rparr>)
   \<and> (who ident = Some u \<and> \<not> checked fld \<longrightarrow>
        part0_submitCallback ident authz action fld ann =
          ann\<lparr>permissions :=
            Some ((case permissions ann of None \<Rightarrow> Map.empty | Some p \<Rightarrow> p)
                    (action \<mapsto> [authorizedUserId authz u]))\<rparr>)
   \<and> map submit (part0_addPermissionsCheckboxes g ident authz) =
        [part0_submitCallback ident authz ''read'', part0_submitCallback ident authz ''update'']"
  by (auto simp add: part0_submitCallback_def part0_addPermissionsCheckboxes_def Let_def
      split: option.splits)

theorem submitCallback_sets_permissions_witness:
  "who ex_anonymous = None
   \<and> part0_submitCallback ex_anonymous ex_authz ''read'' \<lparr>visible = True, checked = False\<rparr>
        ex_annotation = ex_annotation
   \<and> who ex_ident = Some 7
   \<and> map_option (\<lambda>p. (p ''read'', p ''update''))
        (permissions (part0_submitCallback ex_ident ex_authz ''read''
           \<lparr>visible = True, checked = True\<rparr> ex_annotation)) = Some (None, Some [2])
   \<and> map_option (\<lambda>p. (p ''read'', p ''update''))
        (permissions (part0_submitCallback ex_ident ex_authz ''update''
           \<lparr>visible = True, checked = False\<rparr> ex_annotation)) = Some (Some [1], Some [107])
   \<and> map_option (\<lambda>p. (p ''read'', p ''update''))
        (permissions (part0_submitCallback ex_ident ex_authz ''read''
           \<lparr>visible = True, checked = False\<rparr> (ex_annotation\<lparr>permissions := None\<rparr>))) =
       Some (Some [107], None)"
proof -
  have anonymous: "who ex_anonymous = None"
    by (simp add: ex_anonymous_def)
  have user: "who ex_ident = Some 7"
    by (simp add: ex_ident_def)
  have uid: "authorizedUserId ex_authz 7 = 107"
    by (simp add: ex_authz_def)
  have perms: "permissions ex_annotation = Some [''read'' \<mapsto> [1], ''update'' \<mapsto> [2]]"
    by (simp add: ex_annotation_def)
  show ?thesis
    using submitCallback_sets_permissions [where ident = ex_anonymous and authz = ex_authz
        and action = "''read''" and fld = "\<lparr>visible = True, checked = False\<rparr>"
        and ann = ex_annotation and u = 7 and g = ex_globals]
      submitCallback_sets_permissions [where ident = ex_ident and authz = ex_authz
        and action = "''read''" and fld = "\<lparr>visible = True, checked = True\<rparr>"
        and ann = ex_annotation and u = 7 and g = ex_globals]
      submitCallback_sets_permissions [where ident = ex_ident and authz = ex_authz
        and action = "''update''" and fld = "\<lparr>visible = True, checked = False\<rparr>"
        and ann = ex_annotation and u = 7 and g = ex_globals]
      submitCallback_sets_permissions [where ident = ex_ident and authz = ex_authz
        and action = "''read''" and fld = "\<lparr>visible = True, checked = False\<rparr>"
        and ann = "ex_annotation\<lparr>permissions := None\<rparr>" and u = 7 and g = ex_globals]
    by (elim conjE) (simp add: anonymous user uid perms)
qed


text \<open>
  Claim C6. The object that \<open>main(options)\<close> returns is, in both files, the
  record of exactly the eight methods \<open>start\<close>, \<open>destroy\<close>,
  \<open>annotationsLoaded\<close>, \<open>annotationCreated\<close>, \<open>annotationDeleted\<close>,
  \<open>annotationUpdated\<close>, \<open>beforeAnnotationCreated\<close> and
  \<open>beforeAnnotationUpdated\<close>. Once \<open>start\<close> has run the highlighter is set,
  and with a highlighter set each of the four drawing callbacks makes exactly one
  call, on the highlighter: \<open>drawAll\<close>, \<open>draw\<close>, \<open>undraw\<close> and
  \<open>redraw\<close> respectively, with the argument it was given.
\<close>

theorem lifecycle_callbacks_dispatch:
  assumes "m = snd (snd (mainjs_main g options)) \<or> m = snd (snd (part0_main g options))"
  shows "m = \<lparr>start = start m, destroy = destroy m,
              annotationsLoaded = annotationsLoaded m,
              annotationCreated = annotationCreated m,
              annotationDeleted = annotationDeleted m,
              annotationUpdated = annotationUpdated m,
              beforeAnnotationCreated = beforeAnnotationCreated m,
              beforeAnnotationUpdated = beforeAnnotationUpdated m\<rparr>
       \<and> highlighter (fst (start m app st0)) \<noteq> None
       \<and> (highlighter st \<noteq> None \<longrightarrow>
            annotationsLoaded m anns st = ([Highlighter_drawAll anns], None)
          \<and> annotationCreated m ann st = ([Highlighter_draw ann], None)
          \<and> annotationDeleted m ann st = ([Highlighter_undraw ann], None)
          \<and> annotationUpdated m ann st = ([Highlighter_redraw ann], None))"
  using assms
  by (auto simp add: mainjs_main_def part0_main_def Let_def mainjs_start_fields
      part0_start_fields annotationsLoaded_impl_def annotationCreated_impl_def
      annotationDeleted_impl_def annotationUpdated_impl_def on_def)

theorem lifecycle_callbacks_dispatch_witness:
  "highlighter ex_mainjs_started \<noteq> None
   \<and> highlighter ex_part0_started \<noteq> None
   \<and> annotationsLoaded ex_mainjs_module [ex_annotation] ex_mainjs_started =
       ([Highlighter_drawAll [ex_annotation]], None)
   \<and> annotationCreated ex_mainjs_module ex_annotation ex_mainjs_started =
       ([Highlighter_draw ex_annotation], None)
   \<and> annotationDeleted ex_part0_module ex_annotation ex_part0_started =
       ([Highlighter_undraw ex_annotation], None)
   \<and> annotationUpdated ex_part0_module ex_annotation ex_part0_started =
       ([Highlighter_redraw ex_annotation], None)"
proof -
  have mainjs: "ex_mainjs_module = snd (snd (mainjs_main ex_globals None))
      \<or> ex_mainjs_module = snd (snd (part0_main ex_globals None))"
    by (simp add: ex_mainjs_module_def)
  have part0: "ex_part0_module = snd (snd (mainjs_main ex_globals None))
      \<or> ex_part0_module = snd (snd (part0_main ex_globals None))"
    by (simp add: ex_part0_module_def)
  show ?thesis
    using lifecycle_callbacks_dispatch [OF mainjs, where app = ex_app and ?st0.0 = initial_state
        and st = ex_mainjs_started and anns = "[ex_annotation]" and ann = ex_annotation]
      lifecycle_callbacks_dispatch [OF part0, where app = ex_app and ?st0.0 = initial_state
        and st = ex_part0_started and anns = "[ex_annotation]" and ann = ex_annotation]
    by (elim conjE) (simp add: ex_mainjs_started_def ex_part0_started_def)
qed

text \<open>
  Claim C3, on \<open>src/src/ui/main.js\<close>: \<open>start\<close> never sets
  \<open>state.editor\<close>, and \<open>destroy\<close> calls \<open>state.editor.destroy()\<close> first. So
  for every configuration and every application, \<open>destroy()\<close> after
  \<open>start(app)\<close> throws a TypeError before it has destroyed anything. (In
  \<open>src/unnamed/part_000\<close> it succeeds, see \<open>part0_destroy_after_start\<close>.)
\<close>

theorem mainjs_destroy_after_start_throws:
  "(case mainjs_main g options of
      (opts, state0, m) \<Rightarrow> destroy m (fst (start m app state0))) = ([], Some TypeError)"
  by (simp add: mainjs_main_def Let_def mainjs_start_fields mainjs_destroy_def on_def
      initial_state_def)

text \<open>
  Claim C2, on \<open>src/src/ui/main.js\<close>: \<open>beforeAnnotationCreated\<close> and
  \<open>beforeAnnotationUpdated\<close> return \<open>Promise.resolve()\<close>. Whatever the
  annotation, the state and what the user does, they make no call on the editor
  and the promise they return is resolved, never rejected. (In
  \<open>src/unnamed/part_000\<close> they return the editor's promise, see
  \<open>part0_before_hooks_follow_editor\<close>.)
\<close>

theorem mainjs_before_hooks_never_reject:
  "(case mainjs_main g options of
      (opts, state0, m) \<Rightarrow>
        (beforeAnnotationCreated m ann user st, beforeAnnotationUpdated m ann user st)) =
     ((([], None), Some Resolved), (([], None), Some Resolved))"
  by (simp add: mainjs_main_def Let_def mainjs_beforeAnnotationCreated_def
      mainjs_beforeAnnotationUpdated_def)

text \<open>
  Claim C4, on \<open>src/src/ui/main.js\<close>: \<open>main\<close> gives \<open>element\<close> and
  \<open>viewerExtensions\<close> their defaults but never reads \<open>editorExtensions\<close>.
  A configuration without that key, or no configuration at all, leaves
  \<open>editorExtensions\<close> undefined instead of the empty list. (In
  \<open>src/unnamed/part_000\<close> all three keys get their defaults, see
  \<open>part0_options_defaults\<close>.)
\<close>

theorem mainjs_editorExtensions_not_defaulted:
  "fst (mainjs_main g None) =
     \<lparr>element = Some (document_body g), editorExtensions = None, viewerExtensions = Some []\<rparr>
   \<and> fst (mainjs_main g
        (Some \<lparr>element = el, editorExtensions = None, viewerExtensions = vx\<rparr>)) =
     \<lparr>element = Some (case el of Some e \<Rightarrow> e | None \<Rightarrow> document_body g),
      editorExtensions = None,
      viewerExtensions = Some (case vx of Some xs \<Rightarrow> xs | None \<Rightarrow> [])\<rparr>"
  by (simp add: mainjs_main_def mainjs_options_defaults Let_def)


end
